theory Spec2Isabelle
  imports Main
begin

section \<open>Errors\<close>

text \<open>
  Python exceptions are values. \<open>ExternalError\<close> stands for whatever an external
  collaborator raises (the generated REST client, \<open>requests\<close>, \<open>cv2\<close>, \<open>json\<close>).
\<close>

datatype error =
    AttributeError string
  | TypeError string
  | ValueError string
  | IndexError string
  | FileNotFoundError string
  | Exception string
  | ExternalError string

section \<open>Arrays and array descriptors\<close>

text \<open>
  A \<open>numpy.ndarray\<close> is its shape together with its elements in row-major (C) order.
  The record is generic in the element type; the numeric arrays of the prediction path
  have elements of type \<open>scalar\<close> below.
\<close>

record 'a ndarray =
  nd_shape :: "nat list"
  nd_data :: "'a list"

definition nd_size :: "'a ndarray \<Rightarrow> nat" where
  "nd_size a = prod_list (nd_shape a)"

definition wf_ndarray :: "'a ndarray \<Rightarrow> bool" where
  "wf_ndarray a = (length (nd_data a) = nd_size a)"

text \<open>\<open>a.reshape(-1)\<close>: the one-dimensional array of all elements, in row-major order.\<close>

definition reshape_flat :: "'a ndarray \<Rightarrow> 'a ndarray" where
  "reshape_flat a = \<lparr>nd_shape = [nd_size a], nd_data = nd_data a\<rparr>"

text \<open>\<open>a.tolist()\<close> of a one-dimensional array.\<close>

definition tolist :: "'a ndarray \<Rightarrow> 'a list" where
  "tolist a = nd_data a"

text \<open>\<open>a.tolist()\<close> of a two-dimensional array of shape (n, m): the list of its n rows.\<close>

definition tolist2 :: "'a ndarray \<Rightarrow> 'a list list" where
  "tolist2 a =
     (case nd_shape a of
        [n, m] \<Rightarrow> map (\<lambda>i. take m (drop (i * m) (nd_data a))) [0..<n]
      | _ \<Rightarrow> [])"

text \<open>
  The element of a numeric array, as the Python scalar that \<open>tolist()\<close> gives for it:
  a bool, an int, a float or a complex. A finite float is \<open>Double m e\<close>, the number
  \<open>m * 2 ^ e\<close>. (An extended-precision element has no such scalar and is not
  represented; neither is an array of strings.)
\<close>

datatype double = Double int int | PosInf | NegInf | NaN

datatype scalar = PyBool bool | PyInt int | PyFloat double | PyComplex double double

text \<open>The element types that \<open>np.asarray\<close> can choose for a list of such scalars.\<close>

datatype dtype = BoolT | Int64T | UInt64T | Float64T | Complex128T | ObjectT

fun bit_length :: "nat \<Rightarrow> nat" where
  "bit_length n = (if n = 0 then 0 else Suc (bit_length (n div 2)))"

declare bit_length.simps [simp del]

text \<open>
  The float64 nearest to an integer of magnitude below \<open>2 ^ 64\<close>: 53 significant
  bits, ties to even.
\<close>

definition int_to_double :: "int \<Rightarrow> double" where
  "int_to_double n =
     (let a = nat \<bar>n\<bar>;
          e = bit_length a - 53;
          q = a div 2 ^ e;
          r = a mod 2 ^ e;
          q' = (if 2 ^ e < 2 * r \<or> (2 * r = 2 ^ e \<and> odd q) then q + 1 else q)
      in Double (sgn n * int q') (int e))"

text \<open>
  The type numpy finds for one Python scalar: an int is a C long (int64) if it fits,
  else an unsigned 64-bit integer if it fits, else a Python object.
\<close>

fun discover :: "scalar \<Rightarrow> dtype" where
  "discover (PyBool b) = BoolT"
| "discover (PyInt n) =
     (if - 9223372036854775808 \<le> n \<and> n \<le> 9223372036854775807 then Int64T
      else if 9223372036854775808 \<le> n \<and> n \<le> 18446744073709551615 then UInt64T
      else ObjectT)"
| "discover (PyFloat x) = Float64T"
| "discover (PyComplex x y) = Complex128T"

text \<open>numpy's type promotion; int64 and uint64 have no common integer type.\<close>

fun promote :: "dtype \<Rightarrow> dtype \<Rightarrow> dtype" where
  "promote ObjectT d = ObjectT"
| "promote d ObjectT = ObjectT"
| "promote BoolT d = d"
| "promote d BoolT = d"
| "promote Complex128T d = Complex128T"
| "promote d Complex128T = Complex128T"
| "promote Float64T d = Float64T"
| "promote d Float64T = Float64T"
| "promote Int64T Int64T = Int64T"
| "promote UInt64T UInt64T = UInt64T"
| "promote Int64T UInt64T = Float64T"
| "promote UInt64T Int64T = Float64T"

text \<open>The element type of \<open>np.asarray(xs)\<close>; the empty list gives float64.\<close>

definition result_type :: "scalar list \<Rightarrow> dtype" where
  "result_type xs =
     (case xs of
        [] \<Rightarrow> Float64T
      | x # rest \<Rightarrow> foldl promote (discover x) (map discover rest))"

text \<open>The conversion of one scalar to the element type chosen.\<close>

fun cast :: "dtype \<Rightarrow> scalar \<Rightarrow> scalar" where
  "cast Int64T (PyBool b) = PyInt (if b then 1 else 0)"
| "cast UInt64T (PyBool b) = PyInt (if b then 1 else 0)"
| "cast Float64T (PyBool b) = PyFloat (Double (if b then 1 else 0) 0)"
| "cast Float64T (PyInt n) = PyFloat (int_to_double n)"
| "cast Complex128T (PyBool b) = PyComplex (Double (if b then 1 else 0) 0) (Double 0 0)"
| "cast Complex128T (PyInt n) = PyComplex (int_to_double n) (Double 0 0)"
| "cast Complex128T (PyFloat x) = PyComplex x (Double 0 0)"
| "cast d x = x"

text \<open>
  \<open>np.asarray(xs)\<close> of a flat list of Python scalars: a one-dimensional array whose
  element type is inferred from the list, every element converted to it.
\<close>

definition asarray :: "scalar list \<Rightarrow> scalar ndarray" where
  "asarray xs = \<lparr>nd_shape = [length xs], nd_data = map (cast (result_type xs)) xs\<rparr>"

text \<open>
  \<open>one_type xs\<close>: numpy finds the same type for every element of \<open>xs\<close> (all
  bools, all floats, all complex, all ints below \<open>2 ^ 63\<close>, or all ints from
  \<open>2 ^ 63\<close> up).
\<close>

definition one_type :: "scalar list \<Rightarrow> bool" where
  "one_type xs =
     (case xs of
        [] \<Rightarrow> True
      | x # rest \<Rightarrow> list_all (\<lambda>y. discover y = discover x) rest)"

text \<open>The integer that a scalar denotes, if it denotes one.\<close>

fun exact_int :: "scalar \<Rightarrow> int option" where
  "exact_int (PyBool b) = Some (if b then 1 else 0)"
| "exact_int (PyInt n) = Some n"
| "exact_int (PyFloat (Double m e)) =
     (if 0 \<le> e then Some (m * 2 ^ nat e)
      else if m mod 2 ^ nat (- e) = 0 then Some (m div 2 ^ nat (- e)) else None)"
| "exact_int _ = None"

text \<open>
  \<open>a.reshape(s)\<close> for a list \<open>s\<close> of non-negative dimensions: numpy raises ValueError
  unless the new shape has as many elements as the array.
\<close>

definition reshape :: "'a ndarray \<Rightarrow> nat list \<Rightarrow> error + 'a ndarray" where
  "reshape a s =
     (if prod_list s = nd_size a then Inr \<lparr>nd_shape = s, nd_data = nd_data a\<rparr>
      else Inl (ValueError ''cannot reshape array''))"

text \<open>\<open>skil_client.INDArray\<close>, the array descriptor of the wire format.\<close>

record 'a INDArray =
  ordering :: string
  shape :: "nat list"
  data :: "'a list"

text \<open>\<open>Service._indarray\<close>.\<close>

definition indarray :: "'a ndarray \<Rightarrow> 'a INDArray" where
  "indarray np_array =
     \<lparr>ordering = ''c'',
      shape = nd_shape np_array,
      data = tolist (reshape_flat np_array)\<rparr>"

text \<open>
  The expression \<open>np.asarray(o.data).reshape(o.shape)\<close> that \<open>Service.predict\<close> and
  \<open>Service.predict_single\<close> apply to an output descriptor \<open>o\<close>.
\<close>

definition from_descriptor :: "scalar INDArray \<Rightarrow> error + scalar ndarray" where
  "from_descriptor o' = reshape (asarray (data o')) (shape o')"

section \<open>Python values, requests and the world\<close>

text \<open>
  The values that flow through \<open>predict\<close>: \<open>None\<close>, strings, lists, arrays, the CSV
  records that \<open>TransformCsvService\<close> builds, and \<open>PObj\<close> for an object of the generated
  client whose contents the code never reads.
\<close>

datatype 'a pyval =
    PNone
  | PStr string
  | PList "'a pyval list"
  | NDArray "'a ndarray"
  | SingleCSVRecord "string list"
  | BatchCSVRecord "string list list"
  | PObj string

record 'a MultiPredictRequest =
  request_id :: string
  needs_pre_processing :: bool
  inputs :: "'a INDArray list"

record 'a MultiPredictResponse =
  outputs :: "'a INDArray list"

text \<open>
  What leaves the process: a call of the generated client (\<open>self.skil.api\<close>) or an HTTP
  POST through \<open>requests\<close>. \<open>Transform\<close> carries the client method's name, deployment name,
  transform name, version name, and the keyword and value of its payload.
\<close>

datatype 'a request =
    ModelStateChange string string string
  | Multipredict string string string "'a MultiPredictRequest"
  | Transform string string string string string "'a pyval"
  | DeleteResourceById int
  | Post string "(string \<times> string) list" string string "(string \<times> string) list"

datatype 'a event = Request "'a request" | Print string | Sleep nat

text \<open>
  The world outside the objects: the trace of requests, printed messages and sleeps, in
  order, and the regular files on disk (path to contents).
\<close>

record 'a world =
  trace :: "'a event list"
  files :: "string \<Rightarrow> string option"

type_synonym ('a, 'r) io = "'a world \<Rightarrow> (error + 'r) \<times> 'a world"

definition io_return :: "'r \<Rightarrow> ('a, 'r) io" where
  "io_return x w = (Inr x, w)"

definition io_raise :: "error \<Rightarrow> ('a, 'r) io" where
  "io_raise e w = (Inl e, w)"

definition io_lift :: "error + 'r \<Rightarrow> ('a, 'r) io" where
  "io_lift r w = (r, w)"

definition io_bind :: "('a, 'r) io \<Rightarrow> ('r \<Rightarrow> ('a, 'q) io) \<Rightarrow> ('a, 'q) io" where
  "io_bind m f w = (case m w of (Inl e, w') \<Rightarrow> (Inl e, w') | (Inr x, w') \<Rightarrow> f x w')"

definition log :: "'a event \<Rightarrow> 'a world \<Rightarrow> 'a world" where
  "log ev w = w\<lparr>trace := trace w @ [ev]\<rparr>"

definition emit :: "'a event \<Rightarrow> ('a, unit) io" where
  "emit ev w = (Inr (), log ev w)"

text \<open>
  A request to an external endpoint \<open>f\<close>: the answer (or the exception raised) depends on
  the request and on everything that happened before it; the request is recorded.
\<close>

definition call :: "('a event list \<Rightarrow> 'a request \<Rightarrow> error + 'r) \<Rightarrow> 'a request \<Rightarrow> ('a, 'r) io" where
  "call f r w = (f (trace w) r, log (Request r) w)"

text \<open>A list comprehension whose element expression may raise: the first error wins.\<close>

fun collect :: "(error + 'r) list \<Rightarrow> error + 'r list" where
  "collect [] = Inr []"
| "collect (Inl e # rs) = Inl e"
| "collect (Inr x # rs) = (case collect rs of Inl e \<Rightarrow> Inl e | Inr xs \<Rightarrow> Inr (x # xs))"

section \<open>Objects\<close>

text \<open>
  The classes \<open>Skil\<close>, \<open>Deployment\<close>, \<open>Model\<close>, \<open>Transform\<close> and the client's
  \<open>ModelEntity\<close> are not defined in \<open>services.py\<close>; the records hold the attributes
  that \<open>services.py\<close> reads. Whether a \<open>Skil\<close> instance has a \<open>name\<close> attribute is left
  open (\<open>Skil_name = None\<close>: it has none).
\<close>

record Skil =
  Skil_host :: string
  Skil_auth_headers :: "(string \<times> string) list"
  Skil_name :: "string option"

record Deployment =
  Deployment_id :: string
  Deployment_name :: string

record ModelEntity =
  ModelEntity_id :: string
  ModelEntity_state :: string

record Model =
  Model_skil :: Skil
  Model_id :: string
  Model_name :: string
  Model_version :: string
  Model_deployment :: "Deployment option"

record Transform =
  Transform_name :: string

text \<open>
  An attribute of a \<open>Service\<close> holds whatever the constructor was given. \<open>SelfObj\<close> is
  the object under construction itself.
\<close>

datatype pyobj =
    NoneObj
  | SkilObj Skil
  | ModelObj Model
  | DeploymentObj Deployment
  | ModelEntityObj ModelEntity
  | SelfObj

text \<open>No class here defines \<open>__bool__\<close> or \<open>__len__\<close>: only \<open>None\<close> is falsy.\<close>

fun truthy :: "pyobj \<Rightarrow> bool" where
  "truthy NoneObj = False"
| "truthy _ = True"

fun attr_id :: "pyobj \<Rightarrow> error + string" where
  "attr_id (DeploymentObj d) = Inr (Deployment_id d)"
| "attr_id (ModelEntityObj m) = Inr (ModelEntity_id m)"
| "attr_id (ModelObj m) = Inr (Model_id m)"
| "attr_id _ = Inl (AttributeError ''id'')"

fun attr_name :: "pyobj \<Rightarrow> error + string" where
  "attr_name (DeploymentObj d) = Inr (Deployment_name d)"
| "attr_name (ModelObj m) = Inr (Model_name m)"
| "attr_name (SkilObj s) =
     (case Skil_name s of None \<Rightarrow> Inl (AttributeError ''name'') | Some n \<Rightarrow> Inr n)"
| "attr_name _ = Inl (AttributeError ''name'')"

fun attr_version :: "pyobj \<Rightarrow> error + string" where
  "attr_version (ModelObj m) = Inr (Model_version m)"
| "attr_version _ = Inl (AttributeError ''version'')"

fun attr_deployment :: "pyobj \<Rightarrow> error + pyobj" where
  "attr_deployment (ModelObj m) =
     Inr (case Model_deployment m of None \<Rightarrow> NoneObj | Some d \<Rightarrow> DeploymentObj d)"
| "attr_deployment _ = Inl (AttributeError ''deployment'')"

text \<open>
  \<open>self.skil.a\<close> for an attribute \<open>a\<close> of the \<open>Skil\<close> class (\<open>api\<close>, \<open>printer\<close>,
  \<open>config\<close>, \<open>auth_headers\<close>).
\<close>

fun skil_attr :: "pyobj \<Rightarrow> string \<Rightarrow> error + Skil" where
  "skil_attr (SkilObj s) a = Inr s"
| "skil_attr _ a = Inl (AttributeError a)"

record Service =
  skil :: pyobj
  model :: pyobj
  model_name :: string
  model_deployment :: pyobj
  deployment :: pyobj

text \<open>\<open>Service.__init__\<close>; \<open>self.model.name\<close> raises when the model has no name.\<close>

definition Service_init :: "pyobj \<Rightarrow> pyobj \<Rightarrow> pyobj \<Rightarrow> pyobj \<Rightarrow> error + Service" where
  "Service_init skil' model' deployment' model_deployment' =
     (case attr_name model' of
        Inl e \<Rightarrow> Inl e
      | Inr n \<Rightarrow>
          Inr \<lparr>skil = skil', model = model', model_name = n,
               model_deployment = model_deployment', deployment = deployment'\<rparr>)"

text \<open>
  An instance of \<open>Service\<close> or of one of its subclasses. A \<open>Pipeline\<close> has the inherited
  attributes and its \<open>model_service\<close> and \<open>transform_service\<close>, each a service or \<open>None\<close>.
\<close>

datatype service_obj =
    ServiceObj Service
  | TransformCsvServiceObj Service
  | TransformArrayServiceObj Service
  | TransformImageServiceObj Service
  | PipelineObj Service "service_obj option" "service_obj option"

record deploy_args =
  start_server :: bool
  scale :: int
  input_names :: "string list option"
  output_names :: "string list option"
  verbose :: bool

section \<open>External collaborators\<close>

text \<open>
  Everything \<open>services.py\<close> calls and does not define is a parameter: the endpoints of
  the generated client and \<open>requests.post\<close> (each answers a request given the trace so
  far, or raises), \<open>uuid.uuid1\<close>, whether \<open>cv2\<close> was imported, \<open>cv2.imwrite\<close> (it
  raises, writes nothing, or writes the given bytes), \<open>json.loads\<close>, numpy's coercion
  of a non-array to an array, and the \<open>deploy\<close> methods of \<open>Model\<close> and \<open>Transform\<close>.
\<close>

record 'a env =
  model_state_change :: "'a event list \<Rightarrow> 'a request \<Rightarrow> error + ModelEntity"
  multipredict :: "'a event list \<Rightarrow> 'a request \<Rightarrow> error + 'a MultiPredictResponse"
  transform_api :: "'a event list \<Rightarrow> 'a request \<Rightarrow> error + 'a pyval"
  delete_resource_by_id :: "'a event list \<Rightarrow> 'a request \<Rightarrow> error + unit"
  requests_post :: "'a event list \<Rightarrow> 'a request \<Rightarrow> error + string"
  uuid1 :: "'a event list \<Rightarrow> string"
  cv2 :: bool
  imwrite :: "string \<Rightarrow> 'a pyval \<Rightarrow> error + string option"
  json_loads :: "string \<Rightarrow> error + 'a pyval"
  asanyarray :: "'a pyval \<Rightarrow> error + 'a ndarray"
  Model_deploy :: "Model \<Rightarrow> pyobj \<Rightarrow> deploy_args \<Rightarrow> ('a, service_obj option) io"
  Transform_deploy :: "Transform \<Rightarrow> pyobj \<Rightarrow> deploy_args \<Rightarrow> ('a, service_obj option) io"

section \<open>Resource\<close>

record Resource =
  Resource_skil :: pyobj
  resource_id :: "int option"

definition Resource_init :: "pyobj \<Rightarrow> Resource" where
  "Resource_init skil' = \<lparr>Resource_skil = skil', resource_id = None\<rparr>"

text \<open>\<open>Resource.delete\<close>. \<open>if self.resource_id\<close>: \<open>None\<close> and 0 are falsy.\<close>

definition delete :: "'a env \<Rightarrow> Resource \<Rightarrow> ('a, unit) io" where
  "delete env self =
     (case resource_id self of
        None \<Rightarrow> io_return ()
      | Some i \<Rightarrow>
          if i = 0 then io_return ()
          else io_bind (io_lift (skil_attr (Resource_skil self) ''api'')) (\<lambda>_.
               io_bind (call (delete_resource_by_id env) (DeleteResourceById i)) (\<lambda>_.
               io_return ())))"

section \<open>Service: start and stop\<close>

text \<open>\<open>self.skil.printer.pprint(msg)\<close>.\<close>

definition pprint :: "Service \<Rightarrow> string \<Rightarrow> ('a, unit) io" where
  "pprint self msg =
     io_bind (io_lift (skil_attr (skil self) ''printer'')) (\<lambda>_. emit (Print msg))"

text \<open>
  \<open>self.skil.api.model_state_change(self.deployment.id, self.model_deployment.id,
  skil_client.SetState(st))\<close>, evaluated left to right.
\<close>

definition state_change :: "'a env \<Rightarrow> Service \<Rightarrow> string \<Rightarrow> ('a, ModelEntity) io" where
  "state_change env self st =
     io_bind (io_lift (skil_attr (skil self) ''api'')) (\<lambda>_.
     io_bind (io_lift (attr_id (deployment self))) (\<lambda>d.
     io_bind (io_lift (attr_id (model_deployment self))) (\<lambda>m.
     call (model_state_change env) (ModelStateChange d m st))))"

text \<open>One pass of the body of \<open>while True\<close> up to the test of \<open>model_state\<close>.\<close>

definition poll :: "'a env \<Rightarrow> Service \<Rightarrow> ('a, string) io" where
  "poll env self =
     io_bind (emit (Sleep 5)) (\<lambda>_.
     io_bind (state_change env self ''start'') (\<lambda>r.
     io_return (ModelEntity_state r)))"

text \<open>The branch that ends the loop.\<close>

definition started :: "Service \<Rightarrow> ('a, unit) io" where
  "started self =
     io_bind (emit (Sleep 15)) (\<lambda>_. pprint self ''>>> Model server started successfully!'')"

text \<open>The \<open>while True\<close> loop of \<open>Service.start\<close>; \<open>None\<close>: it runs forever.\<close>

partial_function (option) wait_started ::
  "'a env \<Rightarrow> Service \<Rightarrow> 'a world \<Rightarrow> ((error + unit) \<times> 'a world) option" where
  "wait_started env self w =
     (case poll env self w of
        (Inl e, w') \<Rightarrow> Some (Inl e, w')
      | (Inr model_state, w') \<Rightarrow>
          if model_state = ''started'' then Some (started self w')
          else (case pprint self ''>>> Waiting for deployment...'' w' of
                  (Inl e, w'') \<Rightarrow> Some (Inl e, w'')
                | (Inr _, w'') \<Rightarrow> wait_started env self w''))"

text \<open>\<open>Service.start\<close>.\<close>

definition start :: "'a env \<Rightarrow> Service \<Rightarrow> 'a world \<Rightarrow> ((error + unit) \<times> 'a world) option" where
  "start env self w =
     (if \<not> truthy (model_deployment self) then
        Some (pprint self ''No model deployed yet, call 'deploy()' on a model first.'' w)
      else
        (case io_bind (state_change env self ''start'') (\<lambda>_.
                pprint self ''>>> Starting to serve model...'') w of
           (Inl e, w') \<Rightarrow> Some (Inl e, w')
         | (Inr _, w') \<Rightarrow> wait_started env self w'))"

text \<open>\<open>Service.stop\<close>: the entity that the request returns is dropped.\<close>

definition stop :: "'a env \<Rightarrow> Service \<Rightarrow> ('a, unit) io" where
  "stop env self = io_bind (state_change env self ''stop'') (\<lambda>_. io_return ())"

section \<open>Service: predict, predict\_single, detect\_objects\<close>

text \<open>\<open>self._indarray(x)\<close> on any value: only an array has \<open>shape\<close> and \<open>reshape\<close>.\<close>

fun indarray_of :: "'a pyval \<Rightarrow> error + 'a INDArray" where
  "indarray_of (NDArray a) = Inr (indarray a)"
| "indarray_of _ = Inl (AttributeError ''shape'')"

text \<open>\<open>np.expand_dims(x, 0)\<close>: a new leading axis of length one.\<close>

definition expand_dims0 :: "'a env \<Rightarrow> 'a pyval \<Rightarrow> error + 'a pyval" where
  "expand_dims0 env x =
     (case (case x of NDArray a \<Rightarrow> Inr a | _ \<Rightarrow> asanyarray env x) of
        Inl e \<Rightarrow> Inl e
      | Inr a \<Rightarrow> Inr (NDArray (a\<lparr>nd_shape := 1 # nd_shape a\<rparr>)))"

text \<open>
  \<open>self.skil.api.multipredict(deployment_name=self.deployment.name,
  model_name=self.model_name, version_name=version, body=MultiPredictRequest(...))\<close>.
\<close>

definition multipredict_call ::
  "'a env \<Rightarrow> Service \<Rightarrow> string \<Rightarrow> 'a INDArray list \<Rightarrow> ('a, 'a MultiPredictResponse) io" where
  "multipredict_call env self version inputs' =
     io_bind (io_lift (skil_attr (skil self) ''api'')) (\<lambda>_.
     io_bind (io_lift (attr_name (deployment self))) (\<lambda>dn.
     (\<lambda>w. call (multipredict env)
        (Multipredict dn (model_name self) version
           \<lparr>request_id = uuid1 env (trace w), needs_pre_processing = False,
            inputs = inputs'\<rparr>) w)))"

text \<open>\<open>Service.predict\<close>.\<close>

definition Service_predict ::
  "scalar env \<Rightarrow> Service \<Rightarrow> scalar pyval \<Rightarrow> string \<Rightarrow> (scalar, scalar pyval) io" where
  "Service_predict env self data' version =
     io_bind (io_lift (case data' of
                         PList xs \<Rightarrow> collect (map indarray_of xs)
                       | _ \<Rightarrow> collect [indarray_of data'])) (\<lambda>inputs'.
     io_bind (multipredict_call env self version inputs') (\<lambda>classification_response.
     io_bind (io_lift (collect (map from_descriptor (outputs classification_response))))
       (\<lambda>outs.
     io_return (if length outs = 1 then NDArray (outs ! 0) else PList (map NDArray outs)))))"

text \<open>\<open>Service.predict_single\<close>.\<close>

definition Service_predict_single ::
  "scalar env \<Rightarrow> Service \<Rightarrow> scalar pyval \<Rightarrow> string \<Rightarrow> (scalar, scalar pyval) io" where
  "Service_predict_single env self data' version =
     io_bind (io_lift (case data' of
                         PList xs \<Rightarrow>
                           collect (map (\<lambda>x. case expand_dims0 env x of
                                               Inl e \<Rightarrow> Inl e
                                             | Inr y \<Rightarrow> indarray_of y) xs)
                       | _ \<Rightarrow>
                           collect [case expand_dims0 env data' of
                                      Inl e \<Rightarrow> Inl e
                                    | Inr y \<Rightarrow> indarray_of y])) (\<lambda>inputs'.
     io_bind (multipredict_call env self version inputs') (\<lambda>classification_response.
     (case outputs classification_response of
        [] \<Rightarrow> io_raise (IndexError ''list index out of range'')
      | output # _ \<Rightarrow>
          io_lift (case from_descriptor output of
                     Inl e \<Rightarrow> Inl e
                   | Inr a \<Rightarrow> Inr (NDArray a)))))"

text \<open>\<open>cv2.imwrite(temp_path, image)\<close>.\<close>

definition cv2_imwrite :: "'a env \<Rightarrow> string \<Rightarrow> 'a pyval \<Rightarrow> ('a, unit) io" where
  "cv2_imwrite env path img w =
     (case imwrite env path img of
        Inl e \<Rightarrow> (Inl e, w)
      | Inr None \<Rightarrow> (Inr (), w)
      | Inr (Some bytes) \<Rightarrow> (Inr (), w\<lparr>files := (files w)(path \<mapsto> bytes)\<rparr>))"

text \<open>The file contents that \<open>open(temp_path, 'rb')\<close> gives \<open>requests\<close> to upload.\<close>

definition open_rb :: "string \<Rightarrow> ('a, string) io" where
  "open_rb path w =
     (case files w path of
        None \<Rightarrow> (Inl (FileNotFoundError path), w)
      | Some bytes \<Rightarrow> (Inr bytes, w))"

text \<open>\<open>if os.path.isfile(temp_path): os.remove(temp_path)\<close>.\<close>

definition remove_if_isfile :: "string \<Rightarrow> ('a, unit) io" where
  "remove_if_isfile path w =
     (if files w path \<noteq> None then (Inr (), w\<lparr>files := (files w)(path := None)\<rparr>)
      else (Inr (), w))"

text \<open>The detection endpoint's URL, from \<open>str.format\<close>.\<close>

definition detect_url :: "Service \<Rightarrow> error + string" where
  "detect_url self =
     (case skil_attr (skil self) ''config'' of Inl e \<Rightarrow> Inl e | Inr sk \<Rightarrow>
      case attr_deployment (model self) of Inl e \<Rightarrow> Inl e | Inr d \<Rightarrow>
      case attr_name d of Inl e \<Rightarrow> Inl e | Inr dn \<Rightarrow>
      case attr_name (model self) of Inl e \<Rightarrow> Inl e | Inr mn \<Rightarrow>
      case attr_version (model self) of Inl e \<Rightarrow> Inl e | Inr v \<Rightarrow>
        Inr (''http://'' @ Skil_host sk @ ''/endpoints/'' @ dn @ ''/model/'' @ mn
             @ ''/v'' @ v @ ''/detectobjects''))"

text \<open>
  The \<open>requests.post\<close> call inside the \<open>with\<close> block; its arguments are evaluated
  first: \<open>self.skil.auth_headers\<close>, then \<open>self.model.id\<close>.
\<close>

definition upload ::
  "'a env \<Rightarrow> Service \<Rightarrow> string \<Rightarrow> string \<Rightarrow> string \<Rightarrow> bool \<Rightarrow> string \<Rightarrow> ('a, string) io" where
  "upload env self url temp_path bytes needs_preprocessing threshold =
     io_bind (io_lift (skil_attr (skil self) ''auth_headers'')) (\<lambda>sk.
     io_bind (io_lift (attr_id (model self))) (\<lambda>mid.
     call (requests_post env)
       (Post url (Skil_auth_headers sk) temp_path bytes
          [(''id'', mid),
           (''needs_preprocessing'', if needs_preprocessing then ''true'' else ''false''),
           (''threshold'', threshold)])))"

text \<open>
  \<open>Service.detect_objects\<close>. \<open>threshold\<close> is the text that \<open>str(threshold)\<close> yields,
  the only use the method makes of it.
\<close>

definition Service_detect_objects ::
  "'a env \<Rightarrow> Service \<Rightarrow> 'a pyval \<Rightarrow> string \<Rightarrow> bool \<Rightarrow> string \<Rightarrow> ('a, 'a pyval) io" where
  "Service_detect_objects env self img threshold needs_preprocessing temp_path =
     (if \<not> cv2 env then io_raise (Exception ''OpenCV is not installed.'')
      else
        io_bind (cv2_imwrite env temp_path img) (\<lambda>_.
        io_bind (io_lift (detect_url self)) (\<lambda>url.
        io_bind (open_rb temp_path) (\<lambda>bytes.
        io_bind (upload env self url temp_path bytes needs_preprocessing threshold) (\<lambda>resp.
        io_bind (remove_if_isfile temp_path) (\<lambda>_.
        io_lift (json_loads env resp)))))))"

section \<open>Transform services\<close>

text \<open>
  \<open>d.split(separator)\<close> for a non-empty separator: cut at each occurrence, left to
  right; \<open>k\<close> counts the characters of a matched separator still to skip.
\<close>

fun split_aux :: "string \<Rightarrow> nat \<Rightarrow> string \<Rightarrow> string \<Rightarrow> string list" where
  "split_aux sep k acc [] = [rev acc]"
| "split_aux sep (Suc k) acc (c # cs) = split_aux sep k acc cs"
| "split_aux sep 0 acc (c # cs) =
     (if take (length sep) (c # cs) = sep
      then rev acc # split_aux sep (length sep - 1) [] cs
      else split_aux sep 0 (c # acc) cs)"

definition str_split :: "string \<Rightarrow> string \<Rightarrow> error + string list" where
  "str_split d separator =
     (if separator = [] then Inl (ValueError ''empty separator'')
      else Inr (split_aux separator 0 [] d))"

text \<open>\<open>TransformCsvService._to_single_csv_record\<close>.\<close>

fun to_single_csv_record :: "'a pyval \<Rightarrow> string \<Rightarrow> error + string list" where
  "to_single_csv_record (PStr d) separator = str_split d separator"
| "to_single_csv_record _ separator = Inl (AttributeError ''split'')"

text \<open>
  \<open>TransformCsvService._to_batch_csv_record\<close>: \<open>for d in data\<close> walks a list, the
  characters of a string or the first axis of an array, and raises on anything else.
  The arrays here are numeric: what the walk over a non-empty one yields (a numpy number
  or a sub-array) has no \<open>split\<close>.
\<close>

fun to_batch_csv_record :: "scalar pyval \<Rightarrow> string \<Rightarrow> error + string list list" where
  "to_batch_csv_record (PList xs) separator =
     collect (map (\<lambda>d. to_single_csv_record d separator) xs)"
| "to_batch_csv_record (PStr s) separator =
     collect (map (\<lambda>c. str_split [c] separator) s)"
| "to_batch_csv_record (NDArray a) separator =
     (case nd_shape a of
        [] \<Rightarrow> Inl (TypeError ''iteration over a 0-d array'')
      | n # _ \<Rightarrow> if n = 0 then Inr [] else Inl (AttributeError ''split''))"
| "to_batch_csv_record _ separator = Inl (TypeError ''object is not iterable'')"

text \<open>
  A call of a transform endpoint of the client: \<open>method(deployment_name=
  self.deployment.name, transform_name=self.model_name, version_name=version,
  kw=payload)\<close>.
\<close>

definition transform_call ::
  "'a env \<Rightarrow> Service \<Rightarrow> string \<Rightarrow> string \<Rightarrow> string \<Rightarrow> 'a pyval \<Rightarrow> ('a, 'a pyval) io" where
  "transform_call env self method version kw payload =
     io_bind (io_lift (skil_attr (skil self) ''api'')) (\<lambda>_.
     io_bind (io_lift (attr_name (deployment self))) (\<lambda>dn.
     call (transform_api env) (Transform method dn (model_name self) version kw payload)))"

definition TransformCsvService_predict ::
  "scalar env \<Rightarrow> Service \<Rightarrow> scalar pyval \<Rightarrow> string \<Rightarrow> string
     \<Rightarrow> (scalar, scalar pyval) io" where
  "TransformCsvService_predict env self data' separator version =
     io_bind (io_lift (to_batch_csv_record data' separator)) (\<lambda>batch_record.
     transform_call env self ''transform_csv'' version ''batch_csv_record''
       (BatchCSVRecord batch_record))"

definition TransformCsvService_predict_single ::
  "'a env \<Rightarrow> Service \<Rightarrow> 'a pyval \<Rightarrow> string \<Rightarrow> string \<Rightarrow> ('a, 'a pyval) io" where
  "TransformCsvService_predict_single env self data' separator version =
     io_bind (io_lift (to_single_csv_record data' separator)) (\<lambda>single_record.
     transform_call env self ''transformincremental_csv'' version ''single_csv_record''
       (SingleCSVRecord single_record))"

definition TransformArrayService_predict ::
  "'a env \<Rightarrow> Service \<Rightarrow> 'a pyval \<Rightarrow> string \<Rightarrow> ('a, 'a pyval) io" where
  "TransformArrayService_predict env self data' version =
     transform_call env self ''transform_csv'' version ''batch_record'' data'"

definition TransformArrayService_predict_single ::
  "'a env \<Rightarrow> Service \<Rightarrow> 'a pyval \<Rightarrow> string \<Rightarrow> ('a, 'a pyval) io" where
  "TransformArrayService_predict_single env self data' version =
     transform_call env self ''transform_csv'' version ''single_record'' data'"

definition TransformImageService_predict ::
  "'a env \<Rightarrow> Service \<Rightarrow> 'a pyval \<Rightarrow> string \<Rightarrow> ('a, 'a pyval) io" where
  "TransformImageService_predict env self data' version =
     transform_call env self ''transformimage'' version ''files'' data'"

definition TransformImageService_predict_single ::
  "'a env \<Rightarrow> Service \<Rightarrow> 'a pyval \<Rightarrow> string \<Rightarrow> ('a, 'a pyval) io" where
  "TransformImageService_predict_single env self data' version =
     transform_call env self ''transformincrementalimage'' version ''file'' data'"

section \<open>Pipeline and method dispatch\<close>

text \<open>
  \<open>obj.predict(data, version)\<close> with two positional arguments, by the class of \<open>obj\<close>.
  The second parameter of \<open>TransformCsvService.predict\<close> is \<open>separator\<close>, so there the
  second argument is the separator and \<open>version\<close> keeps its default. The \<open>PipelineObj\<close>
  equation is \<open>Pipeline.predict\<close>; calling a method of \<open>None\<close> raises.
\<close>

fun predict ::
  "scalar env \<Rightarrow> service_obj option \<Rightarrow> scalar pyval \<Rightarrow> string
     \<Rightarrow> (scalar, scalar pyval) io" where
  "predict env None data' version = io_raise (AttributeError ''predict'')"
| "predict env (Some (ServiceObj self)) data' version =
     Service_predict env self data' version"
| "predict env (Some (TransformCsvServiceObj self)) data' version =
     TransformCsvService_predict env self data' version ''default''"
| "predict env (Some (TransformArrayServiceObj self)) data' version =
     TransformArrayService_predict env self data' version"
| "predict env (Some (TransformImageServiceObj self)) data' version =
     TransformImageService_predict env self data' version"
| "predict env (Some (PipelineObj self model_service transform_service)) data' version =
     (if transform_service \<noteq> None then
        io_bind (predict env transform_service data' version) (\<lambda>data''.
          predict env model_service data'' version)
      else predict env model_service data' version)"

text \<open>\<open>obj.predict_single(data, version)\<close>; the \<open>PipelineObj\<close> equation is
  \<open>Pipeline.predict_single\<close>.\<close>

fun predict_single ::
  "scalar env \<Rightarrow> service_obj option \<Rightarrow> scalar pyval \<Rightarrow> string
     \<Rightarrow> (scalar, scalar pyval) io" where
  "predict_single env None data' version = io_raise (AttributeError ''predict_single'')"
| "predict_single env (Some (ServiceObj self)) data' version =
     Service_predict_single env self data' version"
| "predict_single env (Some (TransformCsvServiceObj self)) data' version =
     TransformCsvService_predict_single env self data' version ''default''"
| "predict_single env (Some (TransformArrayServiceObj self)) data' version =
     TransformArrayService_predict_single env self data' version"
| "predict_single env (Some (TransformImageServiceObj self)) data' version =
     TransformImageService_predict_single env self data' version"
| "predict_single env (Some (PipelineObj self model_service transform_service)) data' version =
     (if transform_service \<noteq> None then
        io_bind (predict_single env transform_service data' version) (\<lambda>data''.
          predict_single env model_service data'' version)
      else predict_single env model_service data' version)"

text \<open>
  \<open>Pipeline.__init__(deployment, model, transform, start_server, ...)\<close>, with \<open>model\<close> a
  \<open>Model\<close> and \<open>transform\<close> a \<open>Transform\<close> or \<open>None\<close>. The first statement is
  \<open>Service.__init__(self, self, model.skil, deployment, None)\<close>.
\<close>

definition Pipeline_super_init :: "pyobj \<Rightarrow> Model \<Rightarrow> error + Service" where
  "Pipeline_super_init deployment' model' =
     Service_init SelfObj (SkilObj (Model_skil model')) deployment' NoneObj"

definition Pipeline_init ::
  "'a env \<Rightarrow> pyobj \<Rightarrow> Model \<Rightarrow> Transform option \<Rightarrow> deploy_args \<Rightarrow> ('a, service_obj) io" where
  "Pipeline_init env deployment' model' transform args =
     io_bind (io_lift (Pipeline_super_init deployment' model')) (\<lambda>self.
     io_bind (Model_deploy env model' deployment' args) (\<lambda>model_service.
     io_bind (case transform of
                None \<Rightarrow> io_raise (AttributeError ''deploy'')
              | Some t \<Rightarrow> Transform_deploy env t deployment' args) (\<lambda>transform_service.
     io_return (PipelineObj self model_service transform_service))))"

section \<open>The trace of a start\<close>





text \<open>
  \<open>reports env h req P\<close>: asked \<open>req\<close> after the history \<open>h\<close>, the server answers (the
  client does not raise) and the state it reports satisfies \<open>P\<close>.
\<close>

definition reports :: "'a env \<Rightarrow> 'a event list \<Rightarrow> 'a request \<Rightarrow> (string \<Rightarrow> bool) \<Rightarrow> bool" where
  "reports env h req P =
     (case model_state_change env h req of Inl e \<Rightarrow> False | Inr r \<Rightarrow> P (ModelEntity_state r))"

definition is_started :: "string \<Rightarrow> bool" where
  "is_started s = (s = ''started'')"



section \<open>Example objects and servers\<close>

definition sk0 :: Skil where
  "sk0 = \<lparr>Skil_host = ''localhost:9008'',
          Skil_auth_headers = [(''authorization'', ''Bearer token'')],
          Skil_name = None\<rparr>"

definition dep0 :: Deployment where
  "dep0 = \<lparr>Deployment_id = ''0'', Deployment_name = ''iris_deployment''\<rparr>"

definition ent0 :: ModelEntity where
  "ent0 = \<lparr>ModelEntity_id = ''1'', ModelEntity_state = ''stopped''\<rparr>"

definition mod0 :: Model where
  "mod0 = \<lparr>Model_skil = sk0, Model_id = ''7'', Model_name = ''iris'',
           Model_version = ''1'', Model_deployment = Some dep0\<rparr>"

definition named_skil_model :: Model where
  "named_skil_model = mod0\<lparr>Model_skil := sk0\<lparr>Skil_name := Some ''skil''\<rparr>\<rparr>"

definition svc0 :: Service where
  "svc0 = \<lparr>skil = SkilObj sk0, model = ModelObj mod0, model_name = ''iris'',
           model_deployment = ModelEntityObj ent0, deployment = DeploymentObj dep0\<rparr>"

definition undeployed :: Service where
  "undeployed = svc0\<lparr>model_deployment := NoneObj\<rparr>"

definition pipeline0 :: service_obj where
  "pipeline0 = PipelineObj svc0 (Some (ServiceObj svc0)) (Some (TransformArrayServiceObj svc0))"

definition args0 :: deploy_args where
  "args0 = \<lparr>start_server = True, scale = 1, input_names = None, output_names = None,
            verbose = True\<rparr>"

definition no_files :: "string \<Rightarrow> string option" where
  "no_files path = None"

definition w0 :: "scalar world" where
  "w0 = \<lparr>trace = [], files = no_files\<rparr>"

definition batch0 :: "scalar pyval" where
  "batch0 = NDArray \<lparr>nd_shape = [1, 2], nd_data = [PyInt 5, PyInt 6]\<rparr>"

definition sample0 :: "scalar pyval" where
  "sample0 = NDArray \<lparr>nd_shape = [2], nd_data = [PyInt 5, PyInt 6]\<rparr>"

definition two_outputs :: "scalar INDArray list" where
  "two_outputs = [\<lparr>ordering = ''c'', shape = [1, 2], data = [PyInt 1, PyInt 2]\<rparr>,
                  \<lparr>ordering = ''c'', shape = [1, 1], data = [PyInt 3]\<rparr>]"

fun is_request :: "'a event \<Rightarrow> bool" where
  "is_request (Request r) = True"
| "is_request _ = False"

fun echo :: "'a request \<Rightarrow> error + 'a pyval" where
  "echo (Transform method dn tn version kw payload) = Inr payload"
| "echo _ = Inl (ExternalError ''unexpected request'')"

text \<open>
  A server whose state report depends on how many requests it has seen (\<open>states\<close>),
  whose model has the outputs \<open>outs\<close>, and whose detection endpoint answers \<open>posted\<close>.
\<close>

definition example_env ::
  "(nat \<Rightarrow> error + string) \<Rightarrow> scalar INDArray list \<Rightarrow> error + string \<Rightarrow> scalar env" where
  "example_env states outs posted =
     \<lparr>model_state_change =
        (\<lambda>h r. case states (length (filter is_request h)) of
                  Inl e \<Rightarrow> Inl e
                | Inr st \<Rightarrow> Inr \<lparr>ModelEntity_id = ''1'', ModelEntity_state = st\<rparr>),
      multipredict = (\<lambda>h r. Inr \<lparr>outputs = outs\<rparr>),
      transform_api = (\<lambda>h r. echo r),
      delete_resource_by_id = (\<lambda>h r. Inr ()),
      requests_post = (\<lambda>h r. posted),
      uuid1 = (\<lambda>h. ''6fa459ea-ee8a-11e8-a5b2-0242ac110002''),
      cv2 = True,
      imwrite = (\<lambda>path img. Inr (Some ''jpeg'')),
      json_loads = (\<lambda>s. Inr (PStr s)),
      asanyarray = (\<lambda>v. Inl (TypeError ''not an array'')),
      Model_deploy = (\<lambda>m d args. io_return (Some (ServiceObj svc0))),
      Transform_deploy = (\<lambda>t d args. io_return (Some (TransformArrayServiceObj svc0)))\<rparr>"

definition starting_then_started :: "nat \<Rightarrow> error + string" where
  "starting_then_started k = (if k < 2 then Inr ''starting'' else Inr ''started'')"

definition connection_lost :: "nat \<Rightarrow> error + string" where
  "connection_lost k =
     (if k = 0 then Inr ''starting'' else Inl (ExternalError ''connection refused''))"

definition env_ok :: "scalar env" where
  "env_ok = example_env starting_then_started two_outputs (Inr ''{}'')"

definition env_down :: "scalar env" where
  "env_down =
     example_env connection_lost two_outputs (Inl (ExternalError ''connection refused''))"

definition tp0 :: Transform where
  "tp0 = \<lparr>Transform_name = ''iris_tp''\<rparr>"

definition image0 :: "scalar pyval" where
  "image0 = NDArray \<lparr>nd_shape = [1, 1, 3], nd_data = [PyInt 0, PyInt 0, PyInt 0]\<rparr>"

text \<open>A uint64 array of shape (1, 2) with one element above \<open>2 ^ 63\<close> and one below.\<close>

definition big_uint64 :: "scalar ndarray" where
  "big_uint64 = \<lparr>nd_shape = [1, 2], nd_data = [PyInt 9223372036854775809, PyInt 1]\<rparr>"

definition small_int64 :: "scalar ndarray" where
  "small_int64 =
     \<lparr>nd_shape = [2, 3],
      nd_data = [PyInt 1, PyInt 2, PyInt 3, PyInt 4, PyInt 5, PyInt 6]\<rparr>"

section \<open>Array marshaling round trip\<close>

lemma concat_rows_flat:
  "length xs = n * m \<Longrightarrow> concat (map (\<lambda>i. take m (drop (i * m) xs)) [0..<n]) = xs"
proof (induction n arbitrary: xs rule: nat_induct)
  case 0
  then show ?case by simp
next
  case (Suc n)
  have len: "length (take (n * m) xs) = n * m"
    using Suc.prems by simp
  have same: "\<And>i. i < n \<Longrightarrow> take m (drop (i * m) xs) = take m (drop (i * m) (take (n * m) xs))"
  proof -
    fix i assume "i < n"
    then have "Suc i \<le> n" by simp
    then have "Suc i * m \<le> n * m" by (rule mult_le_mono1)
    then have "m \<le> n * m - i * m" by simp
    then show "take m (drop (i * m) xs) = take m (drop (i * m) (take (n * m) xs))"
      by (simp add: drop_take min_def)
  qed
  have "concat (map (\<lambda>i. take m (drop (i * m) xs)) [0..<n])
      = concat (map (\<lambda>i. take m (drop (i * m) (take (n * m) xs))) [0..<n])"
    using same by (intro arg_cong[where f=concat] map_cong) auto
  also have "\<dots> = take (n * m) xs"
    using Suc.IH[OF len] .
  finally have front: "concat (map (\<lambda>i. take m (drop (i * m) xs)) [0..<n]) = take (n * m) xs" .
  have rest: "take m (drop (n * m) xs) = drop (n * m) xs"
    using Suc.prems by simp
  show ?case
    by (simp add: front rest)
qed

lemma bit_length_0: "bit_length 0 = 0"
  by (simp add: bit_length.simps)

lemma bit_length_bounds: "2 ^ k \<le> n \<Longrightarrow> n < 2 ^ Suc k \<Longrightarrow> bit_length n = Suc k"
proof (induction k arbitrary: n)
  case 0
  then have "n = 1" by simp
  then show ?case
    by (simp add: bit_length.simps[of "Suc 0"] bit_length_0)
next
  case (Suc k)
  have "(0::nat) < 2 ^ Suc k" by simp
  with Suc.prems(1) have pos: "n \<noteq> 0" by linarith
  have lo: "2 ^ k \<le> n div 2" using Suc.prems(1) by simp
  have hi: "n div 2 < 2 ^ Suc k" using Suc.prems(2) by simp
  from Suc.IH[OF lo hi] pos show ?case
    by (simp add: bit_length.simps[of n])
qed

lemma big_to_double: "int_to_double 9223372036854775809 = Double 4503599627370496 11"
  using bit_length_bounds[of 63 9223372036854775809]
  by (simp add: int_to_double_def Let_def)

lemma one_to_double: "int_to_double 1 = Double 1 0"
  using bit_length_bounds[of 0 "Suc 0"]
  by (simp add: int_to_double_def Let_def)

lemma promote_idem: "promote d d = d"
  by (cases d) simp_all

lemma foldl_promote_same:
  "list_all (\<lambda>y. discover y = d) ys \<Longrightarrow> foldl promote d (map discover ys) = d"
  by (induction ys) (simp_all add: promote_idem)

lemma cast_own: "cast (discover x) x = x"
  by (cases x) simp_all

lemma asarray_one_type:
  assumes "one_type xs"
  shows "asarray xs = \<lparr>nd_shape = [length xs], nd_data = xs\<rparr>"
proof (cases xs)
  case Nil
  then show ?thesis by (simp add: asarray_def)
next
  case (Cons x rest)
  with assms have same: "list_all (\<lambda>y. discover y = discover x) rest"
    by (simp add: one_type_def)
  then have rt: "result_type xs = discover x"
    using Cons by (simp add: result_type_def foldl_promote_same)
  have "\<forall>y\<in>set rest. cast (discover x) y = y"
  proof
    fix y assume "y \<in> set rest"
    with same have "discover y = discover x" by (simp add: list_all_iff)
    with cast_own[of y] show "cast (discover x) y = y" by simp
  qed
  then have "map (cast (discover x)) rest = rest"
    by (simp add: map_idI)
  then show ?thesis
    using Cons rt by (simp add: asarray_def cast_own)
qed

text \<open>
  C1. A well-formed array of shape (N, M), marshaled by \<open>_indarray\<close>, gives a descriptor
  with ordering \<open>c\<close>, the array's shape, and the rows of the array concatenated in order.
  Rebuilding an array from that descriptor's data and shape, as \<open>predict\<close> does, gives
  an array of the same shape whose elements are those of the array converted to the type
  that \<open>np.asarray\<close> infers; when numpy finds one type for all the elements, that is the
  array itself, shape and values.
\<close>

theorem indarray_roundtrip:
  assumes "wf_ndarray a" and "nd_shape a = [N, M]"
  shows "from_descriptor (indarray a) =
           Inr \<lparr>nd_shape = [N, M],
                nd_data = map (cast (result_type (nd_data a))) (nd_data a)\<rparr>
       \<and> (one_type (nd_data a) \<longrightarrow> from_descriptor (indarray a) = Inr a)
       \<and> ordering (indarray a) = ''c''
       \<and> shape (indarray a) = [N, M]
       \<and> data (indarray a) = concat (tolist2 a)"
proof -
  have len: "length (nd_data a) = N * M"
    using assms by (simp add: wf_ndarray_def nd_size_def)
  have general: "from_descriptor (indarray a) =
           Inr \<lparr>nd_shape = [N, M],
                nd_data = map (cast (result_type (nd_data a))) (nd_data a)\<rparr>"
    using assms len
    by (simp add: from_descriptor_def indarray_def reshape_def asarray_def tolist_def
        reshape_flat_def nd_size_def)
  have exact: "one_type (nd_data a) \<longrightarrow> from_descriptor (indarray a) = Inr a"
  proof
    assume "one_type (nd_data a)"
    from asarray_one_type[OF this] show "from_descriptor (indarray a) = Inr a"
      using assms len
      by (simp add: from_descriptor_def indarray_def reshape_def tolist_def
          reshape_flat_def nd_size_def)
  qed
  have rows: "data (indarray a) = concat (tolist2 a)"
    using concat_rows_flat[OF len] assms(2)
    by (simp add: indarray_def tolist_def reshape_flat_def tolist2_def)
  show ?thesis
    using general exact rows assms(2) by (simp add: indarray_def)
qed

theorem indarray_roundtrip_witness:
  "wf_ndarray small_int64 \<and> nd_shape small_int64 = [2, 3]
   \<and> one_type (nd_data small_int64)
   \<and> from_descriptor (indarray small_int64) = Inr small_int64
   \<and> data (indarray small_int64) =
       concat [[PyInt 1, PyInt 2, PyInt 3], [PyInt 4, PyInt 5, PyInt 6]]"
proof -
  have wf: "wf_ndarray small_int64"
    by (simp add: small_int64_def wf_ndarray_def nd_size_def)
  have sh: "nd_shape small_int64 = [2, 3]"
    by (simp add: small_int64_def)
  have ot: "one_type (nd_data small_int64)"
    by (simp add: small_int64_def one_type_def)
  from indarray_roundtrip[OF wf sh] ot
  have "from_descriptor (indarray small_int64) = Inr small_int64" by blast
  then show ?thesis
    using wf sh ot
    by (simp add: indarray_def tolist_def reshape_flat_def small_int64_def)
qed

text \<open>
  C1 as first stated fails on a uint64 array that mixes an element above \<open>2 ^ 63\<close>
  with one below: \<open>np.asarray\<close> reads the first as uint64 and the second as int64,
  makes the array float64, and \<open>2 ^ 63 + 1\<close> comes back as \<open>2 ^ 63\<close>.
\<close>

theorem indarray_roundtrip_uint64_counterexample:
  "wf_ndarray big_uint64 \<and> nd_shape big_uint64 = [1, 2]
   \<and> from_descriptor (indarray big_uint64) =
       Inr \<lparr>nd_shape = [1, 2],
            nd_data = [PyFloat (Double 4503599627370496 11), PyFloat (Double 1 0)]\<rparr>
   \<and> from_descriptor (indarray big_uint64) \<noteq> Inr big_uint64
   \<and> map exact_int (nd_data big_uint64) = [Some 9223372036854775809, Some 1]
   \<and> map exact_int [PyFloat (Double 4503599627370496 11), PyFloat (Double 1 0)] =
       [Some 9223372036854775808, Some 1]"
  by (simp add: from_descriptor_def indarray_def big_uint64_def tolist_def reshape_flat_def
      asarray_def result_type_def reshape_def nd_size_def wf_ndarray_def
      big_to_double one_to_double)

section \<open>Start, stop and delete\<close>

lemmas io_defs = io_bind_def io_lift_def io_return_def io_raise_def emit_def call_def log_def

lemmas example_defs = sk0_def dep0_def ent0_def mod0_def svc0_def undeployed_def w0_def
  env_ok_def env_down_def example_env_def no_files_def

lemma state_change_wf:
  assumes "skil self = SkilObj sk" "deployment self = DeploymentObj d"
    "model_deployment self = ModelEntityObj m"
  shows "state_change env self st w =
     (model_state_change env (trace w)
        (ModelStateChange (Deployment_id d) (ModelEntity_id m) st),
      log (Request (ModelStateChange (Deployment_id d) (ModelEntity_id m) st)) w)"
  using assms by (simp add: state_change_def io_defs)

lemma pprint_wf:
  assumes "skil self = SkilObj sk"
  shows "pprint self msg w = (Inr (), log (Print msg) w)"
  using assms by (simp add: pprint_def io_defs)

lemma start_undeployed:
  assumes "skil self = SkilObj sk" "\<not> truthy (model_deployment self)"
  shows "start env self w =
     Some (Inr (), w\<lparr>trace := trace w @
       [Print ''No model deployed yet, call 'deploy()' on a model first.'']\<rparr>)"
  using assms by (simp add: start_def pprint_wf log_def)

text \<open>
  C5. A service with a \<open>Skil\<close> handle and no model deployment: \<open>start()\<close> returns
  normally, and the world afterwards is the world before with one printed message added
  to the trace: no request was sent and no file was touched. (The method takes the
  object as a value and has no assignment to an attribute, so the object is as before.)
\<close>

theorem start_without_deployment:
  assumes "skil self = SkilObj sk" and "\<not> truthy (model_deployment self)"
  shows "start env self w =
     Some (Inr (), w\<lparr>trace := trace w @
       [Print ''No model deployed yet, call 'deploy()' on a model first.'']\<rparr>)"
  using assms by (rule start_undeployed)

theorem start_without_deployment_witness:
  "skil undeployed = SkilObj sk0 \<and> \<not> truthy (model_deployment undeployed)
   \<and> map_option fst (start env_ok undeployed w0) = Some (Inr ())
   \<and> map_option (trace \<circ> snd) (start env_ok undeployed w0) =
       Some [Print ''No model deployed yet, call 'deploy()' on a model first.'']"
proof -
  have a: "skil undeployed = SkilObj sk0" by (simp add: undeployed_def svc0_def)
  have b: "\<not> truthy (model_deployment undeployed)" by (simp add: undeployed_def svc0_def)
  from start_without_deployment[OF a b, of env_ok w0] a b show ?thesis
    by (simp add: w0_def)
qed

text \<open>
  C7. A service with a \<open>Skil\<close> handle, a deployment and a model deployment: \<open>stop()\<close>
  adds exactly one event to the trace, the \<open>stop\<close> state-change request, and touches
  nothing else; it returns \<open>None\<close> whatever entity the server answers with (the
  reported state is not read), and raises only what the request raises.
\<close>

theorem stop_issues_one_request:
  assumes "skil self = SkilObj sk" and "deployment self = DeploymentObj d"
    and "model_deployment self = ModelEntityObj m"
  shows "stop env self w =
     ((case model_state_change env (trace w)
             (ModelStateChange (Deployment_id d) (ModelEntity_id m) ''stop'') of
         Inl e \<Rightarrow> Inl e
       | Inr r \<Rightarrow> Inr ()),
      w\<lparr>trace := trace w @
        [Request (ModelStateChange (Deployment_id d) (ModelEntity_id m) ''stop'')]\<rparr>)"
  using assms
  by (simp add: stop_def state_change_wf io_bind_def io_return_def log_def split: sum.splits)

theorem stop_issues_one_request_witness:
  "skil svc0 = SkilObj sk0 \<and> deployment svc0 = DeploymentObj dep0
   \<and> model_deployment svc0 = ModelEntityObj ent0
   \<and> fst (stop env_ok svc0 w0) = Inr ()
   \<and> trace (snd (stop env_ok svc0 w0)) = [Request (ModelStateChange ''0'' ''1'' ''stop'')]"
proof -
  have a: "skil svc0 = SkilObj sk0" by (simp add: svc0_def)
  have b: "deployment svc0 = DeploymentObj dep0" by (simp add: svc0_def)
  have c: "model_deployment svc0 = ModelEntityObj ent0" by (simp add: svc0_def)
  from stop_issues_one_request[OF a b c, of env_ok w0] a b c show ?thesis
    by (simp add: w0_def dep0_def ent0_def env_ok_def example_env_def starting_then_started_def)
qed

text \<open>
  C8. A service whose \<open>model_deployment\<close> is \<open>None\<close>: \<open>stop()\<close> raises, and sends
  nothing, since reading \<open>self.model_deployment.id\<close> fails (with a \<open>Skil\<close> handle and
  a deployment the error is that AttributeError); \<open>start()\<close> on the same service returns
  normally.
\<close>

theorem stop_without_deployment_raises:
  assumes "model_deployment self = NoneObj"
  shows "(\<exists>e. stop env self w = (Inl e, w))
       \<and> (skil self = SkilObj sk \<and> deployment self = DeploymentObj d
            \<longrightarrow> stop env self w = (Inl (AttributeError ''id''), w))
       \<and> (skil self = SkilObj sk \<longrightarrow> (\<exists>w'. start env self w = Some (Inr (), w')))"
proof -
  have "\<exists>e. stop env self w = (Inl e, w)"
    using assms
    by (cases "skil self"; cases "deployment self")
       (simp_all add: stop_def state_change_def io_defs)
  moreover have "skil self = SkilObj sk \<and> deployment self = DeploymentObj d
            \<longrightarrow> stop env self w = (Inl (AttributeError ''id''), w)"
    using assms by (simp add: stop_def state_change_def io_defs)
  moreover have "skil self = SkilObj sk \<longrightarrow> (\<exists>w'. start env self w = Some (Inr (), w'))"
    using assms by (simp add: start_undeployed)
  ultimately show ?thesis by blast
qed

theorem stop_without_deployment_raises_witness:
  "model_deployment undeployed = NoneObj
   \<and> stop env_ok undeployed w0 = (Inl (AttributeError ''id''), w0)
   \<and> map_option fst (start env_ok undeployed w0) = Some (Inr ())"
proof -
  have a: "model_deployment undeployed = NoneObj" by (simp add: undeployed_def svc0_def)
  have b: "skil undeployed = SkilObj sk0 \<and> deployment undeployed = DeploymentObj dep0"
    by (simp add: undeployed_def svc0_def)
  from stop_without_deployment_raises[OF a, of env_ok w0 sk0 dep0] a b show ?thesis
    by auto
qed

text \<open>
  C10. A resource whose \<open>resource_id\<close> is \<open>None\<close>, as the constructor leaves it:
  \<open>delete()\<close> returns with the world exactly as it was, the trace included, so no
  request was sent. (The method takes the resource as a value and assigns to no
  attribute.)
\<close>

theorem delete_without_id:
  assumes "resource_id self = None"
  shows "delete env self w = (Inr (), w) \<and> resource_id (Resource_init sk) = None"
  using assms by (simp add: delete_def io_return_def Resource_init_def)

theorem delete_without_id_witness:
  "resource_id (Resource_init (SkilObj sk0)) = None
   \<and> delete env_ok (Resource_init (SkilObj sk0)) w0 = (Inr (), w0)"
proof -
  have a: "resource_id (Resource_init (SkilObj sk0)) = None" by (simp add: Resource_init_def)
  from delete_without_id[OF a, of env_ok w0] a show ?thesis by simp
qed

section \<open>The polling loop\<close>












lemma env_down_never_started: "\<not> reports env_down h req is_started"
  by (simp add: reports_def env_down_def example_env_def connection_lost_def is_started_def
      split: sum.splits)



section \<open>Prediction\<close>

lemmas predict_defs = Service_predict_def Service_predict_single_def multipredict_call_def
  expand_dims0_def from_descriptor_def reshape_def asarray_def result_type_def nd_size_def
  indarray_def
  tolist_def reshape_flat_def transform_call_def TransformArrayService_predict_def
  TransformArrayService_predict_single_def

text \<open>
  C2. A model with two outputs, of shapes (1, 2) and (1, 1). \<open>predict\<close> returns the
  list of both arrays, in the order of the response; \<open>predict_single\<close> returns the
  first array alone and drops the second.
\<close>

theorem predict_single_first_output_only:
  "fst (Service_predict_single env_ok svc0 sample0 ''default'' w0) =
     Inr (NDArray \<lparr>nd_shape = [1, 2], nd_data = [PyInt 1, PyInt 2]\<rparr>)
   \<and> fst (Service_predict env_ok svc0 batch0 ''default'' w0) =
     Inr (PList [NDArray \<lparr>nd_shape = [1, 2], nd_data = [PyInt 1, PyInt 2]\<rparr>,
                 NDArray \<lparr>nd_shape = [1, 1], nd_data = [PyInt 3]\<rparr>])"
  by (simp add: predict_defs io_defs example_defs sample0_def batch0_def two_outputs_def)

text \<open>
  C3. A pipeline whose \<open>transform_service\<close> is present: \<open>predict\<close> is the transform
  service's \<open>predict\<close> followed, when that returns, by the model service's \<open>predict\<close> on
  its result, with the same \<open>version\<close> argument to both and in the world the first
  left; an exception of the first is the exception of the whole. Likewise
  \<open>predict_single\<close>.
\<close>

theorem pipeline_predict_chains:
  assumes "transform_service \<noteq> None"
  shows "predict env (Some (PipelineObj self model_service transform_service)) data' version =
           io_bind (predict env transform_service data' version)
             (\<lambda>transformed. predict env model_service transformed version)
       \<and> predict_single env (Some (PipelineObj self model_service transform_service)) data'
             version =
           io_bind (predict_single env transform_service data' version)
             (\<lambda>transformed. predict_single env model_service transformed version)"
  using assms by simp

theorem pipeline_predict_chains_witness:
  "Some (TransformArrayServiceObj svc0) \<noteq> None
   \<and> fst (predict env_ok (Some pipeline0) batch0 ''default'' w0) =
       Inr (PList [NDArray \<lparr>nd_shape = [1, 2], nd_data = [PyInt 1, PyInt 2]\<rparr>,
                   NDArray \<lparr>nd_shape = [1, 1], nd_data = [PyInt 3]\<rparr>])
   \<and> trace (snd (predict env_ok (Some pipeline0) batch0 ''default'' w0)) =
       [Request (Transform ''transform_csv'' ''iris_deployment'' ''iris'' ''default''
                   ''batch_record'' batch0),
        Request (Multipredict ''iris_deployment'' ''iris'' ''default''
                   \<lparr>request_id = ''6fa459ea-ee8a-11e8-a5b2-0242ac110002'',
                    needs_pre_processing = False,
                    inputs = [\<lparr>ordering = ''c'', shape = [1, 2], data = [PyInt 5, PyInt 6]\<rparr>]\<rparr>)]"
proof -
  have a: "Some (TransformArrayServiceObj svc0) \<noteq> None" by simp
  note t = pipeline_predict_chains[OF a, of env_ok svc0 "Some (ServiceObj svc0)" batch0
      "''default''"]
  from t have "predict env_ok (Some pipeline0) batch0 ''default'' w0 =
      io_bind (predict env_ok (Some (TransformArrayServiceObj svc0)) batch0 ''default'')
        (\<lambda>transformed. predict env_ok (Some (ServiceObj svc0)) transformed ''default'') w0"
    unfolding pipeline0_def by (rule_tac conjunct1[THEN fun_cong])
  then show ?thesis
    by (simp add: predict_defs io_defs example_defs batch0_def two_outputs_def)
qed

section \<open>Pipeline construction\<close>

text \<open>
  C9. With \<open>transform = None\<close> the constructor raises, whatever the other arguments and
  the world. Its call of \<open>Service.__init__\<close> passes the pipeline itself as \<open>skil\<close>,
  \<open>model.skil\<close> as \<open>model\<close>, \<open>deployment\<close> as \<open>deployment\<close> and \<open>None\<close> as
  \<open>model_deployment\<close>; so in any pipeline that the constructor does build, \<open>skil\<close> is
  the pipeline, \<open>model\<close> is the \<open>Skil\<close> instance, \<open>model_name\<close> is that instance's name
  and \<open>model_deployment\<close> is \<open>None\<close>.
\<close>

theorem pipeline_without_transform_fails:
  "(\<exists>e. fst (Pipeline_init env deployment' model' None args w) = Inl e)
   \<and> Pipeline_super_init deployment' model' =
       Service_init SelfObj (SkilObj (Model_skil model')) deployment' NoneObj
   \<and> (Pipeline_init env deployment' model' transform args w
         = (Inr (PipelineObj self model_service transform_service), w')
       \<longrightarrow> skil self = SelfObj \<and> model self = SkilObj (Model_skil model')
           \<and> Skil_name (Model_skil model') = Some (model_name self)
           \<and> deployment self = deployment' \<and> model_deployment self = NoneObj)"
proof (intro conjI impI)
  show "\<exists>e. fst (Pipeline_init env deployment' model' None args w) = Inl e"
    by (cases "Pipeline_super_init deployment' model'";
        cases "Model_deploy env model' deployment' args w";
        cases "fst (Model_deploy env model' deployment' args w)")
       (simp_all add: Pipeline_init_def io_defs)
  show "Pipeline_super_init deployment' model' =
       Service_init SelfObj (SkilObj (Model_skil model')) deployment' NoneObj"
    by (simp add: Pipeline_super_init_def)
  assume built: "Pipeline_init env deployment' model' transform args w
         = (Inr (PipelineObj self model_service transform_service), w')"
  then have "Pipeline_super_init deployment' model' = Inr self"
    by (auto simp add: Pipeline_init_def io_defs split: sum.splits prod.splits option.splits)
  then show "skil self = SelfObj" "model self = SkilObj (Model_skil model')"
    "Skil_name (Model_skil model') = Some (model_name self)"
    "deployment self = deployment'" "model_deployment self = NoneObj"
    by (auto simp add: Pipeline_super_init_def Service_init_def split: sum.splits option.splits)
qed

theorem pipeline_without_transform_fails_witness:
  "fst (Pipeline_init env_ok (DeploymentObj dep0) named_skil_model None args0 w0) =
     Inl (AttributeError ''deploy'')
   \<and> fst (Pipeline_init env_ok (DeploymentObj dep0) named_skil_model (Some tp0) args0 w0) =
     Inr (PipelineObj
            \<lparr>skil = SelfObj, model = SkilObj (sk0\<lparr>Skil_name := Some ''skil''\<rparr>),
             model_name = ''skil'', model_deployment = NoneObj,
             deployment = DeploymentObj dep0\<rparr>
            (Some (ServiceObj svc0)) (Some (TransformArrayServiceObj svc0)))"
proof -
  let ?self = "\<lparr>skil = SelfObj, model = SkilObj (sk0\<lparr>Skil_name := Some ''skil''\<rparr>),
             model_name = ''skil'', model_deployment = NoneObj,
             deployment = DeploymentObj dep0\<rparr>"
  have built: "Pipeline_init env_ok (DeploymentObj dep0) named_skil_model (Some tp0) args0 w0 =
     (Inr (PipelineObj ?self (Some (ServiceObj svc0)) (Some (TransformArrayServiceObj svc0))), w0)"
    by (simp add: Pipeline_init_def Pipeline_super_init_def Service_init_def io_defs
        env_ok_def example_env_def named_skil_model_def mod0_def sk0_def)
  note t = pipeline_without_transform_fails[of env_ok "DeploymentObj dep0" named_skil_model
      args0 w0 "Some tp0" ?self "Some (ServiceObj svc0)" "Some (TransformArrayServiceObj svc0)" w0]
  from t built have "skil ?self = SelfObj" by blast
  moreover have "fst (Pipeline_init env_ok (DeploymentObj dep0) named_skil_model None args0 w0) =
     Inl (AttributeError ''deploy'')"
    by (simp add: Pipeline_init_def Pipeline_super_init_def Service_init_def io_defs
        env_ok_def example_env_def named_skil_model_def mod0_def sk0_def)
  ultimately show ?thesis using built by simp
qed

section \<open>Detection and the temporary file\<close>

lemma detect_objects_cases:
  assumes "Service_detect_objects env self img threshold needs_preprocessing temp_path w
             = (r, w')"
  shows "(trace w' = trace w \<and> (\<exists>e. r = Inl e))
       \<or> (\<exists>req e. trace w' = trace w @ [Request req]
             \<and> requests_post env (trace w) req = Inl e \<and> r = Inl e)
       \<or> (\<exists>req resp. trace w' = trace w @ [Request req]
             \<and> requests_post env (trace w) req = Inr resp
             \<and> files w' temp_path = None \<and> r = json_loads env resp)"
  using assms
  by (auto simp add: Service_detect_objects_def io_defs cv2_imwrite_def open_rb_def
      upload_def remove_if_isfile_def
      split: if_splits sum.splits prod.splits option.splits)

text \<open>
  C4. A call of \<open>detect_objects\<close> that returns normally, or whose upload request was
  sent and answered (whatever the answer says, and also when \<open>json.loads\<close> then
  raises on it), leaves no file at \<open>temp_path\<close>.
\<close>

theorem detect_objects_removes_temp_file:
  assumes "Service_detect_objects env self img threshold needs_preprocessing temp_path w
             = (r, w')"
  shows "(r = Inr v \<longrightarrow> files w' temp_path = None)
       \<and> (trace w' = trace w @ [Request req] \<and> requests_post env (trace w) req = Inr resp
            \<longrightarrow> files w' temp_path = None)"
  using detect_objects_cases[OF assms] by auto

theorem detect_objects_removes_temp_file_witness:
  "fst (Service_detect_objects env_ok svc0 image0 ''0.5'' False ''temp.jpg'' w0) =
     Inr (PStr ''{}'')
   \<and> files (snd (Service_detect_objects env_ok svc0 image0 ''0.5'' False ''temp.jpg'' w0))
       ''temp.jpg'' = None"
proof -
  let ?res = "Service_detect_objects env_ok svc0 image0 ''0.5'' False ''temp.jpg'' w0"
  have a: "?res = (fst ?res, snd ?res)" by simp
  have b: "fst ?res = Inr (PStr ''{}'')"
    by (simp add: Service_detect_objects_def detect_url_def cv2_imwrite_def open_rb_def
        upload_def remove_if_isfile_def io_defs example_defs)
  from detect_objects_removes_temp_file[OF a, of "PStr ''{}''"] b show ?thesis
    by blast
qed

text \<open>
  C4 as first stated fails when the upload raises: the file was not there before the
  call, the call ends with the exception of \<open>requests.post\<close>, and the file that
  \<open>cv2.imwrite\<close> wrote is still there.
\<close>

theorem detect_objects_upload_raises_counterexample:
  "files w0 ''temp.jpg'' = None
   \<and> fst (Service_detect_objects env_down svc0 image0 ''0.5'' False ''temp.jpg'' w0) =
       Inl (ExternalError ''connection refused'')
   \<and> files (snd (Service_detect_objects env_down svc0 image0 ''0.5'' False ''temp.jpg'' w0))
       ''temp.jpg'' = Some ''jpeg''"
  by (simp add: Service_detect_objects_def detect_url_def cv2_imwrite_def open_rb_def
      upload_def remove_if_isfile_def io_defs example_defs)

end
